theory Spec2Isabelle
  imports Complex_Main
begin

section \<open>Strings, numbers and errors of the source language\<close>

text \<open>
  The program is TypeScript. A string of the source is a sequence of UTF-16 code units;
  it is modelled as the list of its code units, each a natural number
  (\<open>charCodeAt\<close> reads one, \<open>String.fromCharCode\<close> makes one).

  A number of the source is a double-precision float. The numbers the serializer
  computes with (column indices, row numbers) are integers, and they are modelled as
  \<open>int\<close>. Every integer up to \<open>MAX_SAFE_INTEGER\<close> (\<open>2^53 - 1\<close>) in magnitude is a
  double, and sums, products, remainders and floored quotients of the source that stay
  in this range are exact, so there the model computes what the source computes. Above
  it the source rounds (\<open>parseInt\<close> rounds the number the digits denote, \<open>row++\<close> stops
  advancing at \<open>2^53\<close>) and the model does not: the properties of \<open>getColumnIndex\<close>,
  \<open>parseInt\<close> and the loops of the serializer are therefore stated for numbers up to
  \<open>MAX_SAFE_INTEGER\<close> only.
\<close>

definition MAX_SAFE_INTEGER :: int where
  "MAX_SAFE_INTEGER = 9007199254740991"

type_synonym jsstring = "nat list"

definition js :: "string \<Rightarrow> jsstring" where
  "js s = map of_char s"

text \<open>\<open>String.fromCharCode(n)\<close>: the code unit \<open>n\<close> modulo \<open>2^16\<close>.\<close>

definition fromCharCode :: "int \<Rightarrow> nat" where
  "fromCharCode n = nat (n mod 65536)"

text \<open>
  The faults of the source: a \<open>TypeError\<close> (reading a property of \<open>null\<close> or
  \<open>undefined\<close>), the \<open>SyntaxError\<close> of \<open>JSON.parse\<close>, and an \<open>Error\<close> made with
  \<open>new Error(message)\<close>.
\<close>

datatype error = TypeError | SyntaxError | Error jsstring

section \<open>Column helpers (GroqService.getColumnIndex, GroqService.getColumnLetter)\<close>

text \<open>
  \<^verbatim>\<open>
  private getColumnIndex(columnLetter: string): number {
    let index = 0;
    for (let i = 0; i < columnLetter.length; i++) {
      index = index * 26 + (columnLetter.charCodeAt(i) - 64);
    }
    return index;
  }
  \<close>
\<close>

text \<open>
  The sum and the product are those of \<open>int\<close>: they are the numbers of the source as
  long as every intermediate value is at most \<open>MAX_SAFE_INTEGER\<close> in magnitude.
\<close>

function getColumnIndex_loop :: "jsstring \<Rightarrow> nat \<Rightarrow> int \<Rightarrow> int" where
  "getColumnIndex_loop columnLetter i index =
     (if i < length columnLetter
      then getColumnIndex_loop columnLetter (i + 1)
             (index * 26 + (int (columnLetter ! i) - 64))
      else index)"
  by pat_completeness auto
termination
  by (relation "measure (\<lambda>(columnLetter, i, index). length columnLetter - i)") auto

declare getColumnIndex_loop.simps [simp del]

definition getColumnIndex :: "jsstring \<Rightarrow> int" where
  "getColumnIndex columnLetter = getColumnIndex_loop columnLetter 0 0"

text \<open>
  \<^verbatim>\<open>
  private getColumnLetter(index: number): string {
    let letter = '';
    while (index > 0) {
      index--;
      letter = String.fromCharCode(65 + (index % 26)) + letter;
      index = Math.floor(index / 26);
    }
    return letter;
  }
  \<close>
\<close>

function getColumnLetter_loop :: "int \<Rightarrow> jsstring \<Rightarrow> jsstring" where
  "getColumnLetter_loop index letter =
     (if index > 0
      then getColumnLetter_loop ((index - 1) div 26)
             (fromCharCode (65 + (index - 1) mod 26) # letter)
      else letter)"
  by pat_completeness auto
termination
  by (relation "measure (\<lambda>(index, letter). nat index)") auto

declare getColumnLetter_loop.simps [simp del]

definition getColumnLetter :: "int \<Rightarrow> jsstring" where
  "getColumnLetter index = getColumnLetter_loop index []"

text \<open>The uppercase letters \<open>A\<close> to \<open>Z\<close>, as code units.\<close>

definition is_upper :: "nat \<Rightarrow> bool" where
  "is_upper c = (65 \<le> c \<and> c \<le> 90)"

subsection \<open>The helpers as the specification words them\<close>

text \<open>
  The specification gives the helpers typed failures. These two definitions follow its
  words (section 4.1), to be compared with the functions of the source above.
\<close>

datatype spec_error = InvalidFormat | InvalidArgument | InvalidRange | MalformedPayload

definition columnIndex_spec :: "jsstring \<Rightarrow> spec_error + int" where
  "columnIndex_spec letters =
     (if letters \<noteq> [] \<and> list_all is_upper letters
      then Inr (foldl (\<lambda>index c. index * 26 + (int c - 65 + 1)) 0 letters)
      else Inl InvalidFormat)"

definition columnLetters_spec :: "int \<Rightarrow> spec_error + jsstring" where
  "columnLetters_spec index =
     (if 1 \<le> index then Inr (getColumnLetter index) else Inl InvalidArgument)"

section \<open>The range serializer (GroqService.convertSheetToText)\<close>

subsection \<open>Library operations the serializer calls\<close>

text \<open>\<open>s.split(sep)\<close> for a separator of one code unit: the pieces between separators.\<close>

fun split :: "nat \<Rightarrow> jsstring \<Rightarrow> jsstring list" where
  "split sep [] = [[]]"
| "split sep (c # cs) =
     (if c = sep then [] # split sep cs
      else (case split sep cs of
              [] \<Rightarrow> [[c]]
            | p # ps \<Rightarrow> (c # p) # ps))"

text \<open>
  The array destructuring \<open>const [start, end] = parts\<close> reads positions 0 and 1;
  a position the array does not have gives \<open>undefined\<close> (\<open>None\<close>).
\<close>

definition element :: "'a list \<Rightarrow> nat \<Rightarrow> 'a option" where
  "element xs i = (if i < length xs then Some (xs ! i) else None)"

definition is_digit :: "nat \<Rightarrow> bool" where
  "is_digit c = (48 \<le> c \<and> c \<le> 57)"

text \<open>
  \<open>s.match(/[C]+/)\<close> for a character class \<open>C\<close>: the leftmost position that holds a
  member of the class starts the match, and the match runs as far as members follow.
  Without any member the result is \<open>null\<close> (\<open>None\<close>).
\<close>

definition match_run :: "(nat \<Rightarrow> bool) \<Rightarrow> jsstring \<Rightarrow> jsstring option" where
  "match_run cls s =
     (case dropWhile (\<lambda>c. \<not> cls c) s of
        [] \<Rightarrow> None
      | c # cs \<Rightarrow> Some (takeWhile cls (c # cs)))"

text \<open>
  \<open>x.match(/[C]+/)[0]\<close>: a \<open>TypeError\<close> when \<open>x\<close> is \<open>undefined\<close> (calling a method
  of \<open>undefined\<close>) and when the match is \<open>null\<close> (indexing \<open>null\<close>).
\<close>

definition match0 :: "(nat \<Rightarrow> bool) \<Rightarrow> jsstring option \<Rightarrow> error + jsstring" where
  "match0 cls x =
     (case x of
        None \<Rightarrow> Inl TypeError
      | Some s \<Rightarrow> (case match_run cls s of
                    None \<Rightarrow> Inl TypeError
                  | Some m \<Rightarrow> Inr m))"

text \<open>
  \<open>parseInt\<close> is only applied to a match of \<open>/\d+/\<close>, a non-empty run of decimal digits;
  there it returns the number the digits denote, as long as that number is at most
  \<open>MAX_SAFE_INTEGER\<close> (the source rounds a greater one to the nearest double).
\<close>

definition parseInt :: "jsstring \<Rightarrow> int" where
  "parseInt ds = foldl (\<lambda>n d. n * 10 + (int d - 48)) 0 ds"

text \<open>
  The string of a number, as \<open>letters + row\<close> builds it: the decimal digits, with a minus
  sign for a negative number (the form of every integer below \<open>10^21\<close> in magnitude).
\<close>

function digits_of :: "nat \<Rightarrow> jsstring" where
  "digits_of n = (if n < 10 then [48 + n] else digits_of (n div 10) @ [48 + n mod 10])"
  by pat_completeness auto
termination
  by (relation "measure (\<lambda>n. n)") auto

declare digits_of.simps [simp del]

definition number_toString :: "int \<Rightarrow> jsstring" where
  "number_toString n = (if n < 0 then 45 # digits_of (nat (- n)) else digits_of (nat n))"

subsection \<open>The sheet and the two loops\<close>

text \<open>
  A sheet is an object of the workbook reader: its property \<open>!ref\<close> holds the range as
  text (\<open>A1:B2\<close>), and a property named by a cell address holds a cell object, whose
  field \<open>v\<close> is the value. \<open>ref\<close> is \<open>None\<close> when the property is absent; \<open>cells\<close> maps
  an address to \<open>None\<close> when the sheet has no such cell, to \<open>Some None\<close> for a cell whose
  \<open>v\<close> is \<open>undefined\<close>, and to \<open>Some (Some x)\<close> for a cell with value \<open>x\<close>. The type of the
  values is left open; \<open>toStr\<close> is the conversion the template literal
  \<^verbatim>\<open>`${cell.v}\t`\<close> applies to a value.

  \<^verbatim>\<open>
  private convertSheetToText(sheet: any): string {
    let text = '';
    const range = sheet['!ref'];
    if (range) {
      const [start, end] = range.split(':');
      const startCol = this.getColumnIndex(start.match(/[A-Z]+/)[0]);
      const startRow = parseInt(start.match(/\d+/)[0]);
      const endCol = this.getColumnIndex(end.match(/[A-Z]+/)[0]);
      const endRow = parseInt(end.match(/\d+/)[0]);

      for (let row = startRow; row <= endRow; row++) {
        for (let col = startCol; col <= endCol; col++) {
          const cellAddress = this.getColumnLetter(col) + row;
          const cell = sheet[cellAddress];
          if (cell && cell.v !== undefined) {
            text += `${cell.v}\t`;
          }
        }
        text += '\n';
      }
    }
    return text;
  }
  \<close>
\<close>

record 'v sheet =
  ref :: "jsstring option"
  cells :: "jsstring \<rightharpoonup> 'v option"

text \<open>
  The inner loop, over the columns of one row. \<open>col++\<close> is \<open>col + 1\<close> as long as the
  column is at most \<open>MAX_SAFE_INTEGER\<close> (at \<open>2^53\<close> the increment of the source no
  longer changes the number, and its loop does not end).
\<close>

function col_loop ::
  "('v \<Rightarrow> jsstring) \<Rightarrow> 'v sheet \<Rightarrow> int \<Rightarrow> int \<Rightarrow> int \<Rightarrow> jsstring \<Rightarrow> jsstring" where
  "col_loop toStr sheet row endCol col text =
     (if col \<le> endCol
      then col_loop toStr sheet row endCol (col + 1)
             (case cells sheet (getColumnLetter col @ number_toString row) of
                Some (Some x) \<Rightarrow> text @ toStr x @ [9]
              | _ \<Rightarrow> text)
      else text)"
  by pat_completeness auto
termination
  by (relation "measure (\<lambda>(toStr, sheet, row, endCol, col, text). nat (endCol + 1 - col))") auto

declare col_loop.simps [simp del]

text \<open>The outer loop, over the rows; \<open>row++\<close> is \<open>row + 1\<close> in the same range.\<close>

function row_loop ::
  "('v \<Rightarrow> jsstring) \<Rightarrow> 'v sheet \<Rightarrow> int \<Rightarrow> int \<Rightarrow> int \<Rightarrow> int \<Rightarrow> jsstring \<Rightarrow> jsstring" where
  "row_loop toStr sheet startCol endCol endRow row text =
     (if row \<le> endRow
      then row_loop toStr sheet startCol endCol endRow (row + 1)
             (col_loop toStr sheet row endCol startCol text @ [10])
      else text)"
  by pat_completeness auto
termination
  by (relation "measure (\<lambda>(toStr, sheet, startCol, endCol, endRow, row, text).
        nat (endRow + 1 - row))") auto

declare row_loop.simps [simp del]

definition convertSheetToText :: "('v \<Rightarrow> jsstring) \<Rightarrow> 'v sheet \<Rightarrow> error + jsstring" where
  "convertSheetToText toStr sheet =
     (case ref sheet of
        None \<Rightarrow> Inr []
      | Some range' \<Rightarrow>
          if range' = [] then Inr []
          else
            (let parts = split 58 range';
                 start = element parts 0;
                 end' = element parts 1
             in case match0 is_upper start of Inl e \<Rightarrow> Inl e | Inr startLetters \<Rightarrow>
               (case match0 is_digit start of Inl e \<Rightarrow> Inl e | Inr startDigits \<Rightarrow>
               (case match0 is_upper end' of Inl e \<Rightarrow> Inl e | Inr endLetters \<Rightarrow>
               (case match0 is_digit end' of Inl e \<Rightarrow> Inl e | Inr endDigits \<Rightarrow>
                  Inr (row_loop toStr sheet
                         (getColumnIndex startLetters) (getColumnIndex endLetters)
                         (parseInt endDigits) (parseInt startDigits) []))))))"

section \<open>The response extractor (GroqService.parseGroqResponse)\<close>

subsection \<open>The two regular expressions\<close>

text \<open>
  The class \<open>\s\<close> of a regular expression: the white space and the line terminators of
  the language (tab, line feed, vertical tab, form feed, carriage return, space,
  no-break space, the space separators of Unicode, line and paragraph separator, and the
  byte order mark).
\<close>

definition is_space :: "nat \<Rightarrow> bool" where
  "is_space c =
     (c = 9 \<or> c = 10 \<or> c = 11 \<or> c = 12 \<or> c = 13 \<or> c = 32 \<or> c = 160 \<or> c = 5760
      \<or> (8192 \<le> c \<and> c \<le> 8202) \<or> c = 8232 \<or> c = 8233 \<or> c = 8239 \<or> c = 8287
      \<or> c = 12288 \<or> c = 65279)"

definition starts_with :: "jsstring \<Rightarrow> jsstring \<Rightarrow> bool" where
  "starts_with p s = (take (length p) s = p)"

text \<open>Three backticks.\<close>

definition fence :: jsstring where
  "fence = [96, 96, 96]"

text \<open>
  Both expressions have the shape \<^verbatim>\<open>OPENER\s*([\s\S]*?)\s*```\<close>, with the opener
  \<^verbatim>\<open>```json\<close> or \<^verbatim>\<open>```\<close>. The matcher follows the backtracking order of the
  language. \<open>close_fence s\<close>: the tail \<^verbatim>\<open>\s*```\<close> matches at the start of \<open>s\<close>
  (the greedy \<open>\s*\<close> takes white space first and gives it back when the rest fails).
\<close>

fun close_fence :: "jsstring \<Rightarrow> bool" where
  "close_fence [] = starts_with fence []"
| "close_fence (c # cs) =
     (if is_space c then close_fence cs \<or> starts_with fence (c # cs)
      else starts_with fence (c # cs))"

text \<open>
  \<open>lazy_body acc s\<close>: the lazy group \<^verbatim>\<open>([\s\S]*?)\<close> followed by the tail. The group
  has taken \<open>acc\<close> so far; it stops at the first position where the tail matches, and
  takes one more code unit otherwise. The result is the text of the group.
\<close>

fun lazy_body :: "jsstring \<Rightarrow> jsstring \<Rightarrow> jsstring option" where
  "lazy_body acc [] = (if close_fence [] then Some acc else None)"
| "lazy_body acc (c # cs) =
     (if close_fence (c # cs) then Some acc else lazy_body (acc @ [c]) cs)"

text \<open>
  \<open>after_opener s\<close>: the greedy \<open>\s*\<close> after the opener, then the group and the tail.
  It takes white space as long as there is some, and gives it back when the rest fails.
\<close>

fun after_opener :: "jsstring \<Rightarrow> jsstring option" where
  "after_opener [] = lazy_body [] []"
| "after_opener (c # cs) =
     (if is_space c
      then (case after_opener cs of
              Some m \<Rightarrow> Some m
            | None \<Rightarrow> lazy_body [] (c # cs))
      else lazy_body [] (c # cs))"

definition match_at :: "jsstring \<Rightarrow> jsstring \<Rightarrow> jsstring option" where
  "match_at opener s =
     (if starts_with opener s then after_opener (drop (length opener) s) else None)"

text \<open>
  \<open>response.match(re)\<close>: the leftmost position where the expression matches. The result
  is the text of group 1 of the match array, \<open>None\<close> for \<open>null\<close>.
\<close>

fun regex_match :: "jsstring \<Rightarrow> jsstring \<Rightarrow> jsstring option" where
  "regex_match opener [] = match_at opener []"
| "regex_match opener (c # cs) =
     (case match_at opener (c # cs) of
        Some m \<Rightarrow> Some m
      | None \<Rightarrow> regex_match opener cs)"

text \<open>\<^verbatim>\<open>response.match(/```json\s*([\s\S]*?)\s*```/)\<close>\<close>

definition match_json :: "jsstring \<Rightarrow> jsstring option" where
  "match_json response = regex_match (fence @ js ''json'') response"

text \<open>\<^verbatim>\<open>response.match(/```\s*([\s\S]*?)\s*```/)\<close>\<close>

definition match_plain :: "jsstring \<Rightarrow> jsstring option" where
  "match_plain response = regex_match fence response"

subsection \<open>\<open>JSON.parse\<close>\<close>

text \<open>
  \<open>JSON.parse\<close> is a function of the language, not of the repository. It is modelled
  from the grammar of the standard (ECMA-262, the JSON grammar; ECMA-404): white space
  is tab, line feed, carriage return and space; a value is an object, an array, a
  string, a number or one of \<open>true\<close>, \<open>false\<close>, \<open>null\<close>; text that the grammar does not
  derive is a \<open>SyntaxError\<close>. A number is kept as the exact rational its digits denote
  (the rounding to double precision is not modelled). An object is the list of its
  members in the order of their first appearance, a repeated key keeping its last value.
\<close>

datatype json =
    JNull
  | JBool bool
  | JNumber rat
  | JString jsstring
  | JArray "json list"
  | JObject "(jsstring \<times> json) list"

datatype token =
    TLBrace | TRBrace | TLBracket | TRBracket | TColon | TComma
  | TString jsstring | TNumber rat | TTrue | TFalse | TNull

definition is_json_ws :: "nat \<Rightarrow> bool" where
  "is_json_ws c = (c = 9 \<or> c = 10 \<or> c = 13 \<or> c = 32)"

definition hex_digit :: "nat \<Rightarrow> nat option" where
  "hex_digit c =
     (if 48 \<le> c \<and> c \<le> 57 then Some (c - 48)
      else if 65 \<le> c \<and> c \<le> 70 then Some (c - 55)
      else if 97 \<le> c \<and> c \<le> 102 then Some (c - 87)
      else None)"

definition hex4 :: "nat \<Rightarrow> nat \<Rightarrow> nat \<Rightarrow> nat \<Rightarrow> nat option" where
  "hex4 a b c d =
     (case (hex_digit a, hex_digit b, hex_digit c, hex_digit d) of
        (Some w, Some x, Some y, Some z) \<Rightarrow> Some (((w * 16 + x) * 16 + y) * 16 + z)
      | _ \<Rightarrow> None)"

definition escape_char :: "nat \<Rightarrow> nat option" where
  "escape_char e =
     (if e = 34 then Some 34
      else if e = 92 then Some 92
      else if e = 47 then Some 47
      else if e = 98 then Some 8
      else if e = 102 then Some 12
      else if e = 110 then Some 10
      else if e = 114 then Some 13
      else if e = 116 then Some 9
      else None)"

text \<open>
  A string token, read after its opening quote: up to the closing quote, with the escapes
  \<^verbatim>\<open>\" \\ \/ \b \f \n \r \t \uXXXX\<close>; a control character (below 32) is not allowed.
  The result is the string and the rest of the text.
\<close>

fun lex_string :: "jsstring \<Rightarrow> jsstring \<Rightarrow> (jsstring \<times> jsstring) option" where
  "lex_string acc [] = None"
| "lex_string acc (c # cs) =
     (if c = 34 then Some (acc, cs)
      else if c < 32 then None
      else if c \<noteq> 92 then lex_string (acc @ [c]) cs
      else (case cs of
              [] \<Rightarrow> None
            | e # cs1 \<Rightarrow>
                if e = 117
                then (case cs1 of
                        h1 # h2 # h3 # h4 # cs2 \<Rightarrow>
                          (case hex4 h1 h2 h3 h4 of
                             None \<Rightarrow> None
                           | Some u \<Rightarrow> lex_string (acc @ [u]) cs2)
                      | _ \<Rightarrow> None)
                else (case escape_char e of
                        None \<Rightarrow> None
                      | Some u \<Rightarrow> lex_string (acc @ [u]) cs1)))"

text \<open>
  A number token: an optional minus sign, an integer part (\<open>0\<close>, or digits that do not
  start with \<open>0\<close>), an optional fraction (a point and at least one digit), an optional
  exponent (\<open>e\<close> or \<open>E\<close>, an optional sign, at least one digit).
\<close>

definition decimal :: "jsstring \<Rightarrow> int" where
  "decimal ds = foldl (\<lambda>n d. n * 10 + (int d - 48)) 0 ds"

definition scale10 :: "int \<Rightarrow> int \<Rightarrow> rat" where
  "scale10 m k = (if 0 \<le> k then of_int m * 10 ^ nat k else of_int m / 10 ^ nat (- k))"

definition lex_exponent :: "jsstring \<Rightarrow> (int \<times> jsstring) option" where
  "lex_exponent s =
     (case s of
        [] \<Rightarrow> Some (0, s)
      | e # r \<Rightarrow>
          if e = 101 \<or> e = 69
          then (let (neg, r1) = (case r of
                                   [] \<Rightarrow> (False, r)
                                 | g # r0 \<Rightarrow> if g = 45 then (True, r0)
                                             else if g = 43 then (False, r0)
                                             else (False, r));
                    ds = takeWhile is_digit r1
                in if ds = [] then None
                   else Some (if neg then - decimal ds else decimal ds, dropWhile is_digit r1))
          else Some (0, s))"

definition lex_fraction :: "jsstring \<Rightarrow> (jsstring \<times> jsstring) option" where
  "lex_fraction s =
     (case s of
        [] \<Rightarrow> Some ([], s)
      | p # r \<Rightarrow>
          if p = 46
          then (let ds = takeWhile is_digit r
                in if ds = [] then None else Some (ds, dropWhile is_digit r))
          else Some ([], s))"

definition lex_integer :: "jsstring \<Rightarrow> (jsstring \<times> jsstring) option" where
  "lex_integer s =
     (case s of
        [] \<Rightarrow> None
      | d # r \<Rightarrow>
          if d = 48 then Some ([48], r)
          else if is_digit d then Some (takeWhile is_digit s, dropWhile is_digit s)
          else None)"

definition lex_number :: "jsstring \<Rightarrow> (rat \<times> jsstring) option" where
  "lex_number s =
     (let (neg, s1) = (case s of
                         [] \<Rightarrow> (False, s)
                       | m # r \<Rightarrow> if m = 45 then (True, r) else (False, s))
      in case lex_integer s1 of
           None \<Rightarrow> None
         | Some (ip, s2) \<Rightarrow>
             (case lex_fraction s2 of
                None \<Rightarrow> None
              | Some (fp, s3) \<Rightarrow>
                  (case lex_exponent s3 of
                     None \<Rightarrow> None
                   | Some (ex, s4) \<Rightarrow>
                       (let v = scale10 (decimal (ip @ fp)) (ex - int (length fp))
                        in Some (if neg then - v else v, s4)))))"

text \<open>Every token takes at least one code unit, so the tokenizer terminates.\<close>

lemma lex_string_length:
  "lex_string acc s = Some (str, rest) \<Longrightarrow> length rest < length s"
proof (induction "length s" arbitrary: acc s rule: less_induct)
  case less
  show ?case
  proof (cases s)
    case Nil
    with less.prems show ?thesis by simp
  next
    case (Cons c cs)
    note s = Cons
    consider (quote) "c = 34" | (ctl) "c \<noteq> 34" "c < 32"
      | (plain) "c \<noteq> 34" "\<not> c < 32" "c \<noteq> 92" | (esc) "c = 92"
      by fastforce
    then show ?thesis
    proof cases
      case quote
      with less.prems s show ?thesis by simp
    next
      case ctl
      with less.prems s show ?thesis by simp
    next
      case plain
      with less.prems s have "lex_string (acc @ [c]) cs = Some (str, rest)" by simp
      from less.hyps [OF _ this] s show ?thesis by simp
    next
      case esc
      show ?thesis
      proof (cases cs)
        case Nil
        with less.prems s esc show ?thesis by simp
      next
        case (Cons e cs1)
        note cs = Cons
        show ?thesis
        proof (cases "e = 117")
          case False
          with less.prems s esc cs obtain u where
            "lex_string (acc @ [u]) cs1 = Some (str, rest)"
            by (auto split: option.splits)
          from less.hyps [OF _ this] s cs show ?thesis by simp
        next
          case True
          with less.prems s esc cs obtain h1 h2 h3 h4 cs2 u where
            cs1: "cs1 = h1 # h2 # h3 # h4 # cs2"
            and r: "lex_string (acc @ [u]) cs2 = Some (str, rest)"
            by (auto split: option.splits list.splits)
          from less.hyps [OF _ r] s cs cs1 show ?thesis by simp
        qed
      qed
    qed
  qed
qed

lemma lex_integer_length:
  "lex_integer s = Some (ip, rest) \<Longrightarrow> length rest < length s"
  by (auto simp: lex_integer_def split: list.splits if_splits
        intro: le_imp_less_Suc length_dropWhile_le)

lemma lex_fraction_length:
  "lex_fraction s = Some (fp, rest) \<Longrightarrow> length rest \<le> length s"
  by (auto simp: lex_fraction_def Let_def split: list.splits if_splits
        intro: le_SucI length_dropWhile_le)

lemma lex_exponent_length:
  "lex_exponent s = Some (ex, rest) \<Longrightarrow> length rest \<le> length s"
  by (auto simp: lex_exponent_def Let_def split: list.splits if_splits
        intro: le_SucI length_dropWhile_le order_trans [OF length_dropWhile_le])

lemma lex_number_length:
  "lex_number s = Some (v, rest) \<Longrightarrow> length rest < length s"
  by (auto simp: lex_number_def Let_def split: list.splits if_splits option.splits prod.splits
        dest!: lex_integer_length lex_fraction_length lex_exponent_length)

function lex :: "jsstring \<Rightarrow> token list option" where
  "lex [] = Some []"
| "lex (c # cs) =
     (if is_json_ws c then lex cs
      else if c = 123 then map_option ((#) TLBrace) (lex cs)
      else if c = 125 then map_option ((#) TRBrace) (lex cs)
      else if c = 91 then map_option ((#) TLBracket) (lex cs)
      else if c = 93 then map_option ((#) TRBracket) (lex cs)
      else if c = 58 then map_option ((#) TColon) (lex cs)
      else if c = 44 then map_option ((#) TComma) (lex cs)
      else if c = 34
      then (case lex_string [] cs of
              None \<Rightarrow> None
            | Some (str, rest) \<Rightarrow> map_option ((#) (TString str)) (lex rest))
      else if c = 45 \<or> is_digit c
      then (case lex_number (c # cs) of
              None \<Rightarrow> None
            | Some (v, rest) \<Rightarrow> map_option ((#) (TNumber v)) (lex rest))
      else if starts_with (js ''true'') (c # cs)
      then map_option ((#) TTrue) (lex (drop 4 (c # cs)))
      else if starts_with (js ''false'') (c # cs)
      then map_option ((#) TFalse) (lex (drop 5 (c # cs)))
      else if starts_with (js ''null'') (c # cs)
      then map_option ((#) TNull) (lex (drop 4 (c # cs)))
      else None)"
  by pat_completeness auto
termination
  by (relation "measure length")
     (auto dest: lex_string_length lex_number_length)


declare lex.simps [simp del]

text \<open>
  The parser reads the tokens from left to right and keeps the containers that are still
  open on a stack: an array with the elements read so far, an object with its members
  and, between a key and its value, the key. \<open>expect\<close> says what may come next.
\<close>

datatype frame =
    FArray "json list"
  | FObject "(jsstring \<times> json) list" "jsstring option"

datatype expect = XValue | XValueOrClose | XKeyOrClose | XKey | XColon | XCommaOrClose

datatype pstate = PState expect "frame list" | PDone json

fun obj_put :: "jsstring \<Rightarrow> 'a \<Rightarrow> (jsstring \<times> 'a) list \<Rightarrow> (jsstring \<times> 'a) list" where
  "obj_put k v [] = [(k, v)]"
| "obj_put k v ((k1, v1) # ms) =
     (if k = k1 then (k, v) # ms else (k1, v1) # obj_put k v ms)"

fun push_value :: "json \<Rightarrow> frame list \<Rightarrow> pstate option" where
  "push_value v [] = Some (PDone v)"
| "push_value v (FArray es # st) = Some (PState XCommaOrClose (FArray (es @ [v]) # st))"
| "push_value v (FObject ms (Some k) # st) =
     Some (PState XCommaOrClose (FObject (obj_put k v ms) None # st))"
| "push_value v (FObject ms None # st) = None"

fun scalar :: "token \<Rightarrow> json option" where
  "scalar (TString s) = Some (JString s)"
| "scalar (TNumber n) = Some (JNumber n)"
| "scalar TTrue = Some (JBool True)"
| "scalar TFalse = Some (JBool False)"
| "scalar TNull = Some JNull"
| "scalar t = None"

fun begin_value :: "token \<Rightarrow> frame list \<Rightarrow> pstate option" where
  "begin_value TLBracket st = Some (PState XValueOrClose (FArray [] # st))"
| "begin_value TLBrace st = Some (PState XKeyOrClose (FObject [] None # st))"
| "begin_value t st = (case scalar t of None \<Rightarrow> None | Some v \<Rightarrow> push_value v st)"

fun close_array :: "frame list \<Rightarrow> pstate option" where
  "close_array (FArray es # st) = push_value (JArray es) st"
| "close_array st = None"

fun close_object :: "frame list \<Rightarrow> pstate option" where
  "close_object (FObject ms None # st) = push_value (JObject ms) st"
| "close_object st = None"

fun begin_member :: "token \<Rightarrow> frame list \<Rightarrow> pstate option" where
  "begin_member (TString k) (FObject ms None # st) = Some (PState XColon (FObject ms (Some k) # st))"
| "begin_member t st = None"

fun after_comma :: "frame list \<Rightarrow> pstate option" where
  "after_comma (FArray es # st) = Some (PState XValue (FArray es # st))"
| "after_comma (FObject ms None # st) = Some (PState XKey (FObject ms None # st))"
| "after_comma st = None"

fun step :: "pstate \<Rightarrow> token \<Rightarrow> pstate option" where
  "step (PDone v) t = None"
| "step (PState XValue st) t = begin_value t st"
| "step (PState XValueOrClose st) t =
     (if t = TRBracket then close_array st else begin_value t st)"
| "step (PState XKeyOrClose st) t =
     (if t = TRBrace then close_object st else begin_member t st)"
| "step (PState XKey st) t = begin_member t st"
| "step (PState XColon st) t = (if t = TColon then Some (PState XValue st) else None)"
| "step (PState XCommaOrClose st) t =
     (if t = TComma then after_comma st
      else if t = TRBracket then close_array st
      else if t = TRBrace then close_object st
      else None)"

fun run :: "pstate \<Rightarrow> token list \<Rightarrow> json option" where
  "run s [] = (case s of PDone v \<Rightarrow> Some v | PState x st \<Rightarrow> None)"
| "run s (t # ts) = (case step s t of None \<Rightarrow> None | Some s1 \<Rightarrow> run s1 ts)"

definition JSON_parse :: "jsstring \<Rightarrow> error + json" where
  "JSON_parse text =
     (case lex text of
        None \<Rightarrow> Inl SyntaxError
      | Some ts \<Rightarrow>
          (case run (PState XValue []) ts of
             None \<Rightarrow> Inl SyntaxError
           | Some v \<Rightarrow> Inr v))"

subsection \<open>parseGroqResponse\<close>

text \<open>
  \<^verbatim>\<open>
  private parseGroqResponse(response: string): ParsedKnowledge {
    try {
      // Extract JSON from response (handle markdown code blocks)
      const jsonMatch = response.match(/```json\s*([\s\S]*?)\s*```/) ||
                       response.match(/```\s*([\s\S]*?)\s*```/) ||
                       [null, response];

      const jsonString = jsonMatch[1] || response;
      return JSON.parse(jsonString);
    } catch (error) {
      console.error('Error parsing Groq response:', error);
      throw new Error('Invalid response format from Groq');
    }
  }
  \<close>
  \<open>jsonMatch1\<close> is \<open>jsonMatch[1]\<close>: group 1 of the first expression that matches, and
  \<open>response\<close> when neither does. The empty string is falsy, so \<open>jsonMatch[1] || response\<close>
  is \<open>response\<close> when the group is empty. Whatever the \<open>try\<close> block throws is caught
  and replaced by an \<open>Error\<close> with a fixed message.
\<close>

definition jsonMatch1 :: "jsstring \<Rightarrow> jsstring" where
  "jsonMatch1 response =
     (case match_json response of
        Some m \<Rightarrow> m
      | None \<Rightarrow> (case match_plain response of
                   Some m \<Rightarrow> m
                 | None \<Rightarrow> response))"

definition jsonString :: "jsstring \<Rightarrow> jsstring" where
  "jsonString response =
     (if jsonMatch1 response \<noteq> [] then jsonMatch1 response else response)"

definition parseGroqResponse :: "jsstring \<Rightarrow> error + json" where
  "parseGroqResponse response =
     (case JSON_parse (jsonString response) of
        Inr v \<Rightarrow> Inr v
      | Inl e \<Rightarrow> Inl (Error (js ''Invalid response format from Groq'')))"

section \<open>Notions the properties are stated with\<close>

text \<open>
  The address of a cell, as the serializer builds it (\<open>getColumnLetter(col) + row\<close>), and
  the text of a range from one address to another, as the workbook reader writes it in
  \<open>!ref\<close>.
\<close>

definition address :: "int \<Rightarrow> int \<Rightarrow> jsstring" where
  "address col row = getColumnLetter col @ number_toString row"

definition range_ref :: "int \<Rightarrow> int \<Rightarrow> int \<Rightarrow> int \<Rightarrow> jsstring" where
  "range_ref startCol startRow endCol endRow =
     address startCol startRow @ [58] @ address endCol endRow"

text \<open>
  What the specification says a cell and a row contribute (section 4.2): the string of a
  present value and a tab, nothing for an absent cell; the cells of the row in ascending
  column order, then one newline.
\<close>

definition cell_text :: "('v \<Rightarrow> jsstring) \<Rightarrow> 'v sheet \<Rightarrow> int \<Rightarrow> int \<Rightarrow> jsstring" where
  "cell_text toStr sheet row col =
     (case cells sheet (address col row) of
        Some (Some x) \<Rightarrow> toStr x @ [9]
      | _ \<Rightarrow> [])"

definition row_text :: "('v \<Rightarrow> jsstring) \<Rightarrow> 'v sheet \<Rightarrow> int \<Rightarrow> int \<Rightarrow> int \<Rightarrow> jsstring" where
  "row_text toStr sheet startCol endCol row =
     concat (map (cell_text toStr sheet row) [startCol..endCol]) @ [10]"

text \<open>
  The serializer as the specification words it (section 4.2), on a range given by its
  start and end columns and rows: a range whose start is not component-wise below its end
  is refused.
\<close>

definition serialize_spec ::
  "('v \<Rightarrow> jsstring) \<Rightarrow> 'v sheet \<Rightarrow> int \<Rightarrow> int \<Rightarrow> int \<Rightarrow> int \<Rightarrow> spec_error + jsstring" where
  "serialize_spec toStr sheet startCol startRow endCol endRow =
     (if startCol \<le> endCol \<and> startRow \<le> endRow
      then Inr (concat (map (row_text toStr sheet startCol endCol) [startRow..endRow]))
      else Inl InvalidRange)"

text \<open>The error that \<open>parseGroqResponse\<close> throws.\<close>

definition invalid_response :: error where
  "invalid_response = Error (js ''Invalid response format from Groq'')"

section \<open>Properties of the column helpers\<close>

lemma getColumnIndex_loop_foldl:
  "getColumnIndex_loop s i idx = foldl (\<lambda>index c. index * 26 + (int c - 64)) idx (drop i s)"
proof (induction s i idx rule: getColumnIndex_loop.induct)
  case (1 s i idx)
  show ?case
  proof (cases "i < length s")
    case True
    then have "drop i s = s ! i # drop (Suc i) s" by (simp add: Cons_nth_drop_Suc)
    with True 1 show ?thesis by (simp add: getColumnIndex_loop.simps [of s i idx])
  next
    case False
    then show ?thesis by (simp add: getColumnIndex_loop.simps [of s i idx])
  qed
qed

lemma getColumnIndex_foldl:
  "getColumnIndex s = foldl (\<lambda>index c. index * 26 + (int c - 64)) 0 s"
  by (simp add: getColumnIndex_def getColumnIndex_loop_foldl)

lemma getColumnLetter_loop_acc:
  "getColumnLetter_loop n acc = getColumnLetter_loop n [] @ acc"
proof (induction "nat n" arbitrary: n acc rule: less_induct)
  case less
  show ?case
  proof (cases "n > 0")
    case True
    let ?m = "(n - 1) div 26"
    let ?c = "fromCharCode (65 + (n - 1) mod 26)"
    from True have lt: "nat ?m < nat n" by simp
    have "getColumnLetter_loop n acc = getColumnLetter_loop ?m (?c # acc)"
      using True by (simp add: getColumnLetter_loop.simps [of n])
    also have "\<dots> = getColumnLetter_loop ?m [] @ (?c # acc)"
      by (rule less [OF lt])
    also have "\<dots> = (getColumnLetter_loop ?m [] @ [?c]) @ acc" by simp
    also have "getColumnLetter_loop ?m [] @ [?c] = getColumnLetter_loop ?m [?c]"
      by (rule less [OF lt, symmetric])
    also have "\<dots> = getColumnLetter_loop n []"
      using True by (simp add: getColumnLetter_loop.simps [of n])
    finally show ?thesis .
  next
    case False
    then show ?thesis by (simp add: getColumnLetter_loop.simps [of n])
  qed
qed

lemma getColumnLetter_step:
  "0 < n \<Longrightarrow> getColumnLetter n
     = getColumnLetter ((n - 1) div 26) @ [fromCharCode (65 + (n - 1) mod 26)]"
  unfolding getColumnLetter_def
  by (subst getColumnLetter_loop.simps, subst getColumnLetter_loop_acc) simp

lemma getColumnLetter_nonpos: "n \<le> 0 \<Longrightarrow> getColumnLetter n = []"
  by (simp add: getColumnLetter_def getColumnLetter_loop.simps [of n])

lemma fromCharCode_letter:
  "fromCharCode (65 + k mod 26) = nat (65 + k mod 26)"
proof -
  have "0 \<le> k mod 26" "k mod 26 < 26" by simp_all
  then show ?thesis by (simp add: fromCharCode_def)
qed

lemma is_upper_letter: "is_upper (fromCharCode (65 + k mod 26))"
proof -
  have "0 \<le> k mod 26" "k mod 26 < 26" by simp_all
  then show ?thesis unfolding fromCharCode_letter is_upper_def by linarith
qed

lemma getColumnLetter_upper: "list_all is_upper (getColumnLetter n)"
proof (induction "nat n" arbitrary: n rule: less_induct)
  case less
  show ?case
  proof (cases "n > 0")
    case True
    then have "nat ((n - 1) div 26) < nat n" by simp
    from less [OF this] True show ?thesis
      by (simp add: getColumnLetter_step is_upper_letter)
  next
    case False
    then show ?thesis by (simp add: getColumnLetter_nonpos)
  qed
qed

lemma getColumnLetter_nonempty: "1 \<le> n \<Longrightarrow> getColumnLetter n \<noteq> []"
  by (simp add: getColumnLetter_step)

lemma getColumnIndex_append:
  "getColumnIndex (xs @ [c]) = getColumnIndex xs * 26 + (int c - 64)"
  by (simp add: getColumnIndex_foldl)

lemma column_roundtrip: "0 \<le> n \<Longrightarrow> getColumnIndex (getColumnLetter n) = n"
proof (induction "nat n" arbitrary: n rule: less_induct)
  case less
  show ?case
  proof (cases "n > 0")
    case True
    let ?m = "(n - 1) div 26"
    from True have lt: "nat ?m < nat n" and m0: "0 \<le> ?m" by simp_all
    have ih: "getColumnIndex (getColumnLetter ?m) = ?m" by (rule less.hyps [OF lt m0])
    have k: "0 \<le> (n - 1) mod 26" by simp
    have "getColumnIndex (getColumnLetter n) = ?m * 26 + (int (nat (65 + (n - 1) mod 26)) - 64)"
      using True by (simp add: getColumnLetter_step getColumnIndex_append ih fromCharCode_letter)
    also have "\<dots> = ?m * 26 + (n - 1) mod 26 + 1" using k by simp
    also have "\<dots> = n" by simp
    finally show ?thesis .
  next
    case False
    with less.prems have "n = 0" by simp
    then show ?thesis by (simp add: getColumnLetter_nonpos getColumnIndex_foldl)
  qed
qed

lemma getColumnIndex_magnitude:
  "list_all (\<lambda>c. c < 65536) letters \<Longrightarrow>
     25 * \<bar>getColumnIndex letters\<bar> \<le> 65536 * (26 ^ length letters - 1)"
proof (induction letters rule: rev_induct)
  case Nil
  then show ?case by (simp add: getColumnIndex_foldl)
next
  case (snoc c cs)
  then have ih: "25 * \<bar>getColumnIndex cs\<bar> \<le> 65536 * (26 ^ length cs - 1)"
    and c: "c < 65536" by simp_all
  from c have d: "\<bar>int c - 64\<bar> \<le> 65536" by linarith
  have "\<bar>getColumnIndex (cs @ [c])\<bar> \<le> 26 * \<bar>getColumnIndex cs\<bar> + \<bar>int c - 64\<bar>"
    unfolding getColumnIndex_append by (simp add: abs_mult)
  with d have "25 * \<bar>getColumnIndex (cs @ [c])\<bar>
      \<le> 26 * (25 * \<bar>getColumnIndex cs\<bar>) + 25 * 65536" by linarith
  also from ih have "\<dots> \<le> 26 * (65536 * (26 ^ length cs - 1)) + 25 * 65536" by linarith
  also have "\<dots> = 65536 * (26 ^ length (cs @ [c]) - 1)" by simp
  finally show ?case .
qed

lemma getColumnIndex_safe:
  assumes "length letters \<le> 8" and "list_all (\<lambda>c. c < 65536) letters"
  shows "\<bar>getColumnIndex letters\<bar> \<le> MAX_SAFE_INTEGER"
proof -
  from assms(1) have "(26::int) ^ length letters \<le> 26 ^ 8"
    by (intro power_increasing) simp_all
  then have "65536 * ((26::int) ^ length letters - 1) \<le> 65536 * (26 ^ 8 - 1)" by simp
  with getColumnIndex_magnitude [OF assms(2)]
  have "25 * \<bar>getColumnIndex letters\<bar> \<le> 65536 * ((26::int) ^ 8 - 1)" by (rule order_trans)
  then show ?thesis by (simp add: MAX_SAFE_INTEGER_def)
qed

section \<open>Properties of the serializer\<close>

subsection \<open>The loops\<close>

lemma col_loop_text:
  "col_loop toStr sheet row endCol col text
     = text @ concat (map (cell_text toStr sheet row) [col..endCol])"
proof (induction toStr sheet row endCol col "text" rule: col_loop.induct)
  case (1 toStr sheet row endCol col t)
  show ?case
  proof (cases "col \<le> endCol")
    case True
    have step: "col_loop toStr sheet row endCol col t
        = col_loop toStr sheet row endCol (col + 1) (t @ cell_text toStr sheet row col)"
      using True
      by (subst col_loop.simps)
         (simp add: cell_text_def address_def split: option.splits)
    have "(case cells sheet (getColumnLetter col @ number_toString row) of
             Some (Some x) \<Rightarrow> t @ toStr x @ [9] | _ \<Rightarrow> t)
          = t @ cell_text toStr sheet row col"
      by (simp add: cell_text_def address_def split: option.splits)
    with 1 [OF True] have ih: "col_loop toStr sheet row endCol (col + 1)
          (t @ cell_text toStr sheet row col)
        = (t @ cell_text toStr sheet row col)
          @ concat (map (cell_text toStr sheet row) [col + 1..endCol])"
      by simp
    from True have "[col..endCol] = col # [col + 1..endCol]" by (rule upto_rec1)
    with step ih show ?thesis by simp
  next
    case False
    then show ?thesis by (simp add: col_loop.simps [of _ _ _ endCol col])
  qed
qed

lemma row_loop_text:
  "row_loop toStr sheet startCol endCol endRow row text
     = text @ concat (map (row_text toStr sheet startCol endCol) [row..endRow])"
proof (induction toStr sheet startCol endCol endRow row "text" rule: row_loop.induct)
  case (1 toStr sheet startCol endCol endRow row t)
  show ?case
  proof (cases "row \<le> endRow")
    case True
    have row_eq: "col_loop toStr sheet row endCol startCol t @ [10]
        = t @ row_text toStr sheet startCol endCol row"
      by (simp add: row_text_def col_loop_text)
    have step: "row_loop toStr sheet startCol endCol endRow row t
        = row_loop toStr sheet startCol endCol endRow (row + 1)
            (t @ row_text toStr sheet startCol endCol row)"
      using True by (subst row_loop.simps) (simp only: if_True row_eq)
    from 1 [OF True] have ih: "row_loop toStr sheet startCol endCol endRow (row + 1)
            (t @ row_text toStr sheet startCol endCol row)
        = (t @ row_text toStr sheet startCol endCol row)
          @ concat (map (row_text toStr sheet startCol endCol) [row + 1..endRow])"
      by (simp only: row_eq)
    from True have "[row..endRow] = row # [row + 1..endRow]" by (rule upto_rec1)
    with step ih show ?thesis by simp
  next
    case False
    then show ?thesis by (simp add: row_loop.simps [of _ _ _ _ endRow row])
  qed
qed

subsection \<open>Reading a range back\<close>

lemma digits_of_nonempty: "digits_of n \<noteq> []"
  by (subst digits_of.simps) simp

lemma digits_of_digits: "list_all is_digit (digits_of n)"
proof (induction n rule: digits_of.induct)
  case (1 n)
  show ?case
  proof (cases "n < 10")
    case True
    then show ?thesis by (subst digits_of.simps) (simp add: is_digit_def)
  next
    case False
    have "n mod 10 < 10" by simp
    then have "is_digit (48 + n mod 10)" unfolding is_digit_def by linarith
    with 1 False show ?thesis by (subst digits_of.simps) simp
  qed
qed

lemma parseInt_append: "parseInt (ds @ [d]) = parseInt ds * 10 + (int d - 48)"
  by (simp add: parseInt_def)

lemma parseInt_digits_of: "parseInt (digits_of n) = int n"
proof (induction n rule: digits_of.induct)
  case (1 n)
  show ?case
  proof (cases "n < 10")
    case True
    then show ?thesis by (subst digits_of.simps) (simp add: parseInt_def)
  next
    case False
    with 1 have "parseInt (digits_of (n div 10)) = int (n div 10)" by simp
    with False show ?thesis
      by (subst digits_of.simps) (simp add: parseInt_append zdiv_int zmod_int)
  qed
qed

lemma split_no_sep: "sep \<notin> set s \<Longrightarrow> split sep s = [s]"
  by (induction s) auto

lemma split_at_sep:
  "sep \<notin> set a \<Longrightarrow> split sep (a @ sep # b) = a # split sep b"
  by (induction a) auto

lemma match_run_prefix:
  assumes "a \<noteq> []" "list_all cls a" "list_all (\<lambda>c. \<not> cls c) b"
  shows "match_run cls (a @ b) = Some a"
proof -
  from assms(1) obtain c cs where a: "a = c # cs" by (cases a) auto
  with assms(2) have c: "cls c" by simp
  have tw: "takeWhile cls (a @ b) = a"
  proof (cases b)
    case Nil
    with assms(2) show ?thesis by (simp add: list_all_iff)
  next
    case (Cons d ds)
    with assms(3) have "\<not> cls d" by simp
    with assms(2) Cons show ?thesis by (simp add: list_all_iff takeWhile_tail)
  qed
  have "dropWhile (\<lambda>c. \<not> cls c) (a @ b) = a @ b" using a c by simp
  with a tw show ?thesis by (simp add: match_run_def)
qed

lemma match_run_suffix:
  assumes "b \<noteq> []" "list_all cls b" "list_all (\<lambda>c. \<not> cls c) a"
  shows "match_run cls (a @ b) = Some b"
proof -
  from assms(1) obtain c cs where b: "b = c # cs" by (cases b) auto
  with assms(2) have c: "cls c" by simp
  have "dropWhile (\<lambda>c. \<not> cls c) (a @ b) = b"
    using assms(3) b c by (simp add: dropWhile_append3 list_all_iff)
  moreover have "takeWhile cls b = b" using assms(2) by (simp add: list_all_iff)
  ultimately show ?thesis using b by (simp add: match_run_def)
qed

lemma upper_not_digit: "is_upper c \<Longrightarrow> \<not> is_digit c"
  by (simp add: is_upper_def is_digit_def)

lemma list_all_implies: "list_all P xs \<Longrightarrow> (\<And>x. P x \<Longrightarrow> Q x) \<Longrightarrow> list_all Q xs"
  by (auto simp: list_all_iff)

lemma number_toString_nonneg: "0 \<le> n \<Longrightarrow> number_toString n = digits_of (nat n)"
  by (simp add: number_toString_def)

lemma address_letters:
  assumes "1 \<le> col" "0 \<le> row"
  shows "match_run is_upper (address col row) = Some (getColumnLetter col)"
    and "match_run is_digit (address col row) = Some (number_toString row)"
    and "58 \<notin> set (address col row)"
proof -
  let ?a = "getColumnLetter col" and ?b = "number_toString row"
  have a1: "?a \<noteq> []" using assms(1) by (rule getColumnLetter_nonempty)
  have a2: "list_all is_upper ?a" by (rule getColumnLetter_upper)
  have b1: "?b \<noteq> []" using assms(2) by (simp add: number_toString_nonneg digits_of_nonempty)
  have b2: "list_all is_digit ?b" using assms(2) by (simp add: number_toString_nonneg digits_of_digits)
  have a3: "list_all (\<lambda>c. \<not> is_digit c) ?a"
    by (rule list_all_implies [OF a2]) (rule upper_not_digit)
  have b3: "list_all (\<lambda>c. \<not> is_upper c) ?b"
    by (rule list_all_implies [OF b2]) (auto dest: upper_not_digit)
  show "match_run is_upper (address col row) = Some ?a"
    unfolding address_def by (rule match_run_prefix [OF a1 a2 b3])
  show "match_run is_digit (address col row) = Some ?b"
    unfolding address_def by (rule match_run_suffix [OF b1 b2 a3])
  have "\<not> is_upper 58" "\<not> is_digit 58" by (simp_all add: is_upper_def is_digit_def)
  with a2 b2 show "58 \<notin> set (address col row)"
    by (auto simp: address_def list_all_iff)
qed

lemma address_nonempty: "1 \<le> col \<Longrightarrow> address col row \<noteq> []"
  by (simp add: address_def getColumnLetter_nonempty)

lemma split_range_ref:
  assumes "1 \<le> sc" "0 \<le> sr" "1 \<le> ec" "0 \<le> er"
  shows "split 58 (range_ref sc sr ec er) = [address sc sr, address ec er]"
  using address_letters(3) [OF assms(1,2)] address_letters(3) [OF assms(3,4)]
  by (simp add: range_ref_def split_at_sep split_no_sep)

lemma convertSheetToText_range:
  assumes "1 \<le> sc" "0 \<le> sr" "1 \<le> ec" "0 \<le> er"
    and "ref sheet = Some (range_ref sc sr ec er)"
  shows "convertSheetToText toStr sheet
           = Inr (concat (map (row_text toStr sheet sc ec) [sr..er]))"
proof -
  have ne: "range_ref sc sr ec er \<noteq> []"
    using assms(1) by (simp add: range_ref_def address_nonempty)
  have m: "match0 is_upper (Some (address sc sr)) = Inr (getColumnLetter sc)"
    "match0 is_digit (Some (address sc sr)) = Inr (number_toString sr)"
    "match0 is_upper (Some (address ec er)) = Inr (getColumnLetter ec)"
    "match0 is_digit (Some (address ec er)) = Inr (number_toString er)"
    using address_letters(1,2) [OF assms(1,2)] address_letters(1,2) [OF assms(3,4)]
    by (simp_all add: match0_def)
  have idx: "getColumnIndex (getColumnLetter sc) = sc" "getColumnIndex (getColumnLetter ec) = ec"
    using assms(1,3) by (simp_all add: column_roundtrip)
  have rows: "parseInt (number_toString sr) = sr" "parseInt (number_toString er) = er"
    using assms(2,4) by (simp_all add: number_toString_nonneg parseInt_digits_of)
  show ?thesis
    using ne assms(5)
    by (simp add: convertSheetToText_def split_range_ref [OF assms(1-4)] element_def m idx rows
          row_loop_text)
qed

section \<open>Facts for evaluating the functions on given texts\<close>

lemmas regex_eval = js_def fence_def match_json_def match_plain_def match_at_def starts_with_def
  is_space_def

lemmas json_eval = JSON_parse_def lex.simps is_json_ws_def is_digit_def lex_number_def
  lex_integer_def lex_fraction_def lex_exponent_def decimal_def scale10_def starts_with_def
  js_def hex4_def hex_digit_def escape_char_def

lemmas extract_eval = parseGroqResponse_def jsonString_def jsonMatch1_def

lemmas sheet_eval = convertSheetToText_def js_def element_def match0_def match_run_def
  is_upper_def is_digit_def getColumnIndex_foldl parseInt_def row_loop.simps col_loop.simps
  getColumnLetter_def getColumnLetter_loop.simps fromCharCode_def number_toString_def
  digits_of.simps

lemma js_empty_iff: "js s = [] \<longleftrightarrow> s = []"
  by (simp add: js_def)

lemma parseGroqResponse_cases:
  "parseGroqResponse response =
     (case JSON_parse (jsonString response) of Inr v \<Rightarrow> Inr v | Inl e \<Rightarrow> Inl invalid_response)"
  unfolding parseGroqResponse_def invalid_response_def by (rule refl)

lemma JSON_parse_outcome: "(\<exists>v. JSON_parse s = Inr v) \<or> JSON_parse s = Inl SyntaxError"
  by (simp add: JSON_parse_def split: option.splits)

lemma jsonString_nonempty_match:
  "jsonMatch1 response = m \<Longrightarrow> m \<noteq> [] \<Longrightarrow> jsonString response = m"
  by (simp add: jsonString_def)

lemma jsonString_empty_match: "jsonMatch1 response = [] \<Longrightarrow> jsonString response = response"
  by (simp add: jsonString_def)

lemma prose_no_match:
  \<open>match_json (js ''here is the data: {"a":1} thanks'') = None\<close>
  \<open>match_plain (js ''here is the data: {"a":1} thanks'') = None\<close>
  by (simp_all add: regex_eval)

lemma prose_not_json: \<open>JSON_parse (js ''here is the data: {"a":1} thanks'') = Inl SyntaxError\<close>
  by (simp add: json_eval)

lemma object_json: \<open>JSON_parse (js ''{"a":1}'') = Inr (JObject [(js ''a'', JNumber 1)])\<close>
  by (simp add: json_eval)

lemma object_no_match:
  \<open>match_json (js ''{"a":1}'') = None\<close> \<open>match_plain (js ''{"a":1}'') = None\<close>
  by (simp_all add: regex_eval)

lemma fenced_match:
  \<open>match_json (js ''```json\<newline>{"a":1}\<newline>```'') = Some (js ''{"a":1}'')\<close>
  by (simp add: regex_eval)

lemma two_fences_match:
  \<open>match_json (js ''``` 1 ``` ```json 2 ```'') = Some (js ''2'')\<close>
  \<open>match_plain (js ''``` 1 ``` ```json 2 ```'') = Some (js ''1'')\<close>
  by (simp_all add: regex_eval)

lemma plain_fence_match:
  \<open>match_json (js ''```\<newline>[1]\<newline>```'') = None\<close>
  \<open>match_plain (js ''```\<newline>[1]\<newline>```'') = Some (js ''[1]'')\<close>
  by (simp_all add: regex_eval)

lemma empty_json_fence_match: \<open>match_json (js ''```json```'') = Some []\<close>
  by (simp add: regex_eval)

lemma empty_json_fence_not_json: \<open>JSON_parse (js ''```json```'') = Inl SyntaxError\<close>
  by (simp add: json_eval)

lemma quoted_json_fence_match: \<open>match_json (js ''"```json```"'') = Some []\<close>
  by (simp add: regex_eval)

lemma quoted_json_fence_json:
  \<open>JSON_parse (js ''"```json```"'') = Inr (JString (js ''```json```''))\<close>
  by (simp add: json_eval)

lemma quoted_fences_match:
  \<open>match_json (js ''"``````"'') = None\<close> \<open>match_plain (js ''"``````"'') = Some []\<close>
  by (simp_all add: regex_eval)

lemma quoted_fences_json: \<open>JSON_parse (js ''"``````"'') = Inr (JString (js ''``````''))\<close>
  by (simp add: json_eval)

lemma empty_not_json: "JSON_parse [] = Inl SyntaxError"
  by (simp add: json_eval)

lemma not_json_at_all:
  \<open>match_json (js ''not json at all'') = None\<close> \<open>match_plain (js ''not json at all'') = None\<close>
  \<open>JSON_parse (js ''not json at all'') = Inl SyntaxError\<close>
  by (simp_all add: regex_eval json_eval)

lemma open_brace:
  \<open>match_json (js ''{'') = None\<close> \<open>match_plain (js ''{'') = None\<close>
  \<open>JSON_parse (js ''{'') = Inl SyntaxError\<close>
  by (simp_all add: regex_eval json_eval)


lemma range_ref_C5_D4: "range_ref 3 5 4 4 = js ''C5:D4''"
  by (simp add: range_ref_def address_def js_def getColumnLetter_def
        getColumnLetter_loop.simps fromCharCode_def number_toString_def digits_of.simps)

lemma range_ref_B1_A2: "range_ref 2 1 1 2 = js ''B1:A2''"
  by (simp add: range_ref_def address_def js_def getColumnLetter_def
        getColumnLetter_loop.simps fromCharCode_def number_toString_def digits_of.simps)

lemma newlines_only: "concat (map (\<lambda>x. [c]) xs) = replicate (length xs) c"
  by (induction xs) simp_all

lemma row_text_empty_columns: "endCol < startCol \<Longrightarrow> row_text toStr sheet startCol endCol row = [10]"
  by (simp add: row_text_def)

section \<open>The claims\<close>

text \<open>
  C1 (as amended). For every input string, \<open>parseGroqResponse\<close> has one of two outcomes:
  when \<open>JSON.parse\<close> of the chosen candidate succeeds it returns the parsed value, and
  otherwise it throws an \<open>Error\<close> whose message is the fixed text
  \<open>Invalid response format from Groq\<close>; the error carries neither the raw input text nor
  the candidate.
\<close>

theorem C1_extract_outcomes:
  "(\<exists>v. JSON_parse (jsonString response) = Inr v \<and> parseGroqResponse response = Inr v)
   \<or> (JSON_parse (jsonString response) = Inl SyntaxError
       \<and> parseGroqResponse response = Inl (Error (js ''Invalid response format from Groq'')))"
  using JSON_parse_outcome [of "jsonString response"]
  by (auto simp: parseGroqResponse_def)

text \<open>
  C1 as stated fails: the failure of \<open>parseGroqResponse\<close> does not wrap the raw input
  text. Two different raw texts, \<open>not json at all\<close> and \<open>{\<close>, give the same failure, the
  \<open>Error\<close> with the fixed message.
\<close>

theorem C1_counterexample:
  "parseGroqResponse (js ''not json at all'') = Inl (Error (js ''Invalid response format from Groq''))
   \<and> parseGroqResponse (js ''{'') = Inl (Error (js ''Invalid response format from Groq''))
   \<and> js ''not json at all'' \<noteq> js ''{''"
  by (simp add: extract_eval not_json_at_all open_brace js_empty_iff) (simp add: js_def)

text \<open>
  C2 (as amended). When neither regular expression finds a fenced block, the candidate is
  the entire raw text, and \<open>parseGroqResponse\<close> returns what \<open>JSON.parse\<close> makes of the
  entire raw text: it succeeds only when the whole text is JSON. JSON that stands inside
  prose is not recovered: on \<open>here is the data: {"a":1} thanks\<close> the \<open>Error\<close> is thrown.
\<close>

theorem C2_whole_text_candidate:
  \<open>(match_json response = None \<and> match_plain response = None \<longrightarrow>
      jsonString response = response
      \<and> parseGroqResponse response
          = (case JSON_parse response of Inr v \<Rightarrow> Inr v | Inl e \<Rightarrow> Inl invalid_response))
   \<and> jsonString (js ''here is the data: {"a":1} thanks'') = js ''here is the data: {"a":1} thanks''
   \<and> parseGroqResponse (js ''here is the data: {"a":1} thanks'') = Inl invalid_response\<close>
proof -
  have whole: "jsonString r = r" if "match_json r = None" "match_plain r = None" for r
    using that by (simp add: jsonString_def jsonMatch1_def)
  have "jsonString (js ''here is the data: {\"a\":1} thanks'') = js ''here is the data: {\"a\":1} thanks''"
    by (rule whole) (rule prose_no_match)+
  then show ?thesis
    by (auto simp: whole parseGroqResponse_cases prose_not_json)
qed

text \<open>
  The whole-text candidate at work: \<open>{"a":1}\<close> has no fenced block, is JSON as a whole,
  and is parsed to the object with the member \<open>a\<close> of value 1.
\<close>

theorem C2_whole_text_candidate_witness:
  \<open>match_json (js ''{"a":1}'') = None \<and> match_plain (js ''{"a":1}'') = None
   \<and> jsonString (js ''{"a":1}'') = js ''{"a":1}''
   \<and> parseGroqResponse (js ''{"a":1}'') = Inr (JObject [(js ''a'', JNumber 1)])\<close>
  using C2_whole_text_candidate [of "js ''{\"a\":1}''"]
  by (simp add: object_no_match object_json)

text \<open>
  C2 as stated fails: on \<open>here is the data: {"a":1} thanks\<close> the result is not the
  object with the member \<open>a\<close> of value 1; it is the thrown \<open>Error\<close>.
\<close>

theorem C2_counterexample:
  \<open>parseGroqResponse (js ''here is the data: {"a":1} thanks'')
     = Inl (Error (js ''Invalid response format from Groq''))
   \<and> parseGroqResponse (js ''here is the data: {"a":1} thanks'')
     \<noteq> Inr (JObject [(js ''a'', JNumber 1)])\<close>
  by (simp add: extract_eval prose_no_match prose_not_json js_empty_iff)

text \<open>
  C3 (as amended). \<open>convertSheetToText\<close> never fails with \<open>InvalidRange\<close>: on a range
  whose start row is greater than its end row it returns the empty text, and on a range
  whose rows are in order but whose start column is greater than its end column it
  returns one newline for each row. It does not fail when cells inside a range are
  absent: every range given by two addresses is serialized to a text. (The rows and
  columns of the range are at most \<open>MAX_SAFE_INTEGER\<close>, as those of every spreadsheet
  are.)
\<close>

theorem C3_reversed_range_is_serialized:
  assumes "1 \<le> startCol" "0 \<le> startRow" "1 \<le> endCol" "0 \<le> endRow"
    and "ref sheet = Some (range_ref startCol startRow endCol endRow)"
    and "startCol \<le> MAX_SAFE_INTEGER" "startRow \<le> MAX_SAFE_INTEGER"
    and "endCol \<le> MAX_SAFE_INTEGER" "endRow \<le> MAX_SAFE_INTEGER"
  shows "(endRow < startRow \<longrightarrow> convertSheetToText toStr sheet = Inr [])
    \<and> (startRow \<le> endRow \<and> endCol < startCol \<longrightarrow>
          convertSheetToText toStr sheet = Inr (replicate (nat (endRow - startRow + 1)) 10))
    \<and> (\<exists>t. convertSheetToText toStr sheet = Inr t)"
proof -
  note range = convertSheetToText_range [OF assms(1-5), of toStr]
  have rows: "length [startRow..endRow] = nat (endRow - startRow + 1)" by simp
  have reversed: "concat (map (row_text toStr sheet startCol endCol) [startRow..endRow])
          = replicate (nat (endRow - startRow + 1)) 10" if "endCol < startCol"
  proof -
    have "row_text toStr sheet startCol endCol = (\<lambda>row. [10])"
      using that by (intro ext) (rule row_text_empty_columns)
    then show ?thesis by (simp only: newlines_only rows)
  qed
  have "endRow < startRow \<longrightarrow> convertSheetToText toStr sheet = Inr []"
    by (simp add: range)
  moreover have "startRow \<le> endRow \<and> endCol < startCol \<longrightarrow>
      convertSheetToText toStr sheet = Inr (replicate (nat (endRow - startRow + 1)) 10)"
    using reversed by (auto simp only: range)
  moreover have "\<exists>t. convertSheetToText toStr sheet = Inr t"
    by (simp add: range)
  ultimately show ?thesis by blast
qed

text \<open>
  The theorem at two ranges of a sheet without cells: \<open>B1:A2\<close>, where the columns are
  reversed and the rows are 1 and 2, gives two newlines; \<open>C5:D4\<close>, where the rows are
  reversed, gives the empty text.
\<close>

theorem C3_reversed_range_is_serialized_witness:
  "(1::int) \<le> 2 \<and> (0::int) \<le> 1 \<and> (1::int) \<le> 1 \<and> (0::int) \<le> 2
   \<and> ref \<lparr>ref = Some (js ''B1:A2''), cells = (Map.empty :: jsstring \<rightharpoonup> jsstring option)\<rparr>
       = Some (range_ref 2 1 1 2)
   \<and> 2 \<le> MAX_SAFE_INTEGER \<and> 1 \<le> MAX_SAFE_INTEGER
   \<and> (1::int) \<le> 2 \<and> (1::int) < 2
   \<and> convertSheetToText (\<lambda>x. x)
         \<lparr>ref = Some (js ''B1:A2''), cells = (Map.empty :: jsstring \<rightharpoonup> jsstring option)\<rparr>
       = Inr [10, 10]
   \<and> (1::int) \<le> 3 \<and> (0::int) \<le> 5 \<and> (1::int) \<le> 4 \<and> (0::int) \<le> 4
   \<and> ref \<lparr>ref = Some (js ''C5:D4''), cells = (Map.empty :: jsstring \<rightharpoonup> jsstring option)\<rparr>
       = Some (range_ref 3 5 4 4)
   \<and> 3 \<le> MAX_SAFE_INTEGER \<and> 5 \<le> MAX_SAFE_INTEGER \<and> 4 \<le> MAX_SAFE_INTEGER
   \<and> (4::int) < 5
   \<and> convertSheetToText (\<lambda>x. x)
         \<lparr>ref = Some (js ''C5:D4''), cells = (Map.empty :: jsstring \<rightharpoonup> jsstring option)\<rparr>
       = Inr []"
  using C3_reversed_range_is_serialized [of 2 1 1 2
      "\<lparr>ref = Some (js ''B1:A2''), cells = (Map.empty :: jsstring \<rightharpoonup> jsstring option)\<rparr>"
      "\<lambda>x. x"]
    C3_reversed_range_is_serialized [of 3 5 4 4
      "\<lparr>ref = Some (js ''C5:D4''), cells = (Map.empty :: jsstring \<rightharpoonup> jsstring option)\<rparr>"
      "\<lambda>x. x"]
  by (simp add: range_ref_B1_A2 range_ref_C5_D4 numeral_2_eq_2 MAX_SAFE_INTEGER_def)

text \<open>
  C3 as stated fails: the specification refuses the range \<open>B2:A1\<close> with \<open>InvalidRange\<close>;
  \<open>convertSheetToText\<close> returns the empty text for it.
\<close>

theorem C3_counterexample:
  "serialize_spec id \<lparr>ref = Some (js ''B2:A1''), cells = map_of []\<rparr> 2 2 1 1
     = (Inl InvalidRange :: spec_error + jsstring)
   \<and> convertSheetToText id \<lparr>ref = Some (js ''B2:A1''), cells = map_of []\<rparr>
     = (Inr [] :: error + jsstring)"
  by (simp add: serialize_spec_def sheet_eval)

text \<open>
  C4 (as amended). \<open>getColumnIndex\<close> does not fail on the empty string or on a string
  with characters outside \<open>A\<close> to \<open>Z\<close>: for every input string of at most 8 code units it
  returns the left fold \<open>index * 26 + (charCode(c) - charCode('A') + 1)\<close> over the code
  units of the string (65 is the code of \<open>A\<close>), which is 0 for the empty string. The
  fold of such a string stays within \<open>MAX_SAFE_INTEGER\<close>, so the arithmetic of the source
  is exact.
\<close>

theorem C4_columnIndex_is_the_fold:
  assumes "length letters \<le> 8" and "list_all (\<lambda>c. c < 65536) letters"
  shows "getColumnIndex letters = foldl (\<lambda>index c. index * 26 + (int c - 65 + 1)) 0 letters
    \<and> \<bar>getColumnIndex letters\<bar> \<le> MAX_SAFE_INTEGER"
proof -
  have "(\<lambda>index c. index * 26 + (int c - 65 + 1)) = (\<lambda>index c. index * 26 + (int c - 64))"
    by (intro ext) simp
  then have "getColumnIndex letters
      = foldl (\<lambda>index c. index * 26 + (int c - 65 + 1)) 0 letters"
    by (simp add: getColumnIndex_foldl)
  with getColumnIndex_safe [OF assms] show ?thesis by simp
qed

text \<open>
  The theorem at the empty string, at \<open>a1\<close> and at \<open>ZZZZZZZZ\<close>: the results are 0, 843 and
  217180147158.
\<close>

theorem C4_columnIndex_is_the_fold_witness:
  "length ([] :: jsstring) \<le> 8 \<and> list_all (\<lambda>c. c < 65536) ([] :: jsstring)
   \<and> getColumnIndex [] = 0
   \<and> length (js ''a1'') \<le> 8 \<and> list_all (\<lambda>c. c < 65536) (js ''a1'')
   \<and> getColumnIndex (js ''a1'') = 843
   \<and> length (js ''ZZZZZZZZ'') \<le> 8 \<and> list_all (\<lambda>c. c < 65536) (js ''ZZZZZZZZ'')
   \<and> getColumnIndex (js ''ZZZZZZZZ'') = 217180147158
   \<and> \<bar>getColumnIndex (js ''ZZZZZZZZ'')\<bar> \<le> MAX_SAFE_INTEGER"
  using C4_columnIndex_is_the_fold [of "[]"] C4_columnIndex_is_the_fold [of "js ''a1''"]
    C4_columnIndex_is_the_fold [of "js ''ZZZZZZZZ''"]
  by (simp add: js_def MAX_SAFE_INTEGER_def)

text \<open>
  C4 as stated fails: for the empty string and for \<open>a1\<close> the specification has the
  failure \<open>InvalidFormat\<close>; \<open>getColumnIndex\<close> returns the numbers 0 and 843.
\<close>

theorem C4_counterexample:
  "columnIndex_spec [] = Inl InvalidFormat \<and> getColumnIndex [] = 0
   \<and> columnIndex_spec (js ''a1'') = Inl InvalidFormat \<and> getColumnIndex (js ''a1'') = 843"
  by (simp add: columnIndex_spec_def getColumnIndex_foldl js_def is_upper_def)

text \<open>
  C5 (as amended). \<open>getColumnLetter\<close> never fails: for every integer index at most 0 it
  returns the empty string, and for every integer index from 1 on it returns a non-empty
  string of the letters \<open>A\<close> to \<open>Z\<close>.
\<close>

theorem C5_columnLetters_is_total:
  "(index \<le> 0 \<longrightarrow> getColumnLetter index = [])
   \<and> (1 \<le> index \<longrightarrow> getColumnLetter index \<noteq> [] \<and> list_all is_upper (getColumnLetter index))"
  by (simp add: getColumnLetter_nonpos getColumnLetter_nonempty getColumnLetter_upper)

text \<open>The theorem at the indices 0 and 27 (the column \<open>AA\<close>).\<close>

theorem C5_columnLetters_is_total_witness:
  "(0::int) \<le> 0 \<and> getColumnLetter 0 = []
   \<and> (1::int) \<le> 27 \<and> getColumnLetter 27 = js ''AA'' \<and> getColumnLetter 27 \<noteq> []
   \<and> list_all is_upper (getColumnLetter 27)"
proof -
  have "getColumnLetter 27 = js ''AA''"
    by (simp add: getColumnLetter_def getColumnLetter_loop.simps fromCharCode_def js_def)
  with C5_columnLetters_is_total [of 0] C5_columnLetters_is_total [of 27]
  show ?thesis by simp
qed

text \<open>
  C5 as stated fails: for the indices 0 and -5 the specification has the failure
  \<open>InvalidArgument\<close>; \<open>getColumnLetter\<close> returns the empty string.
\<close>

theorem C5_counterexample:
  "columnLetters_spec 0 = Inl InvalidArgument \<and> getColumnLetter 0 = []
   \<and> columnLetters_spec (- 5) = Inl InvalidArgument \<and> getColumnLetter (- 5) = []"
  by (simp add: columnLetters_spec_def getColumnLetter_nonpos)

text \<open>
  C6. Round trip of the column helpers: for every integer \<open>n\<close> from 1 to 1000000 (the
  indices 1 to 18278 among them), \<open>getColumnIndex (getColumnLetter n) = n\<close>.
\<close>

theorem C6_column_round_trip:
  "1 \<le> n \<Longrightarrow> n \<le> 1000000 \<Longrightarrow> getColumnIndex (getColumnLetter n) = n"
  by (simp add: column_roundtrip)

text \<open>The theorem at 18278, the column \<open>ZZZ\<close>.\<close>

theorem C6_column_round_trip_witness:
  "(1::int) \<le> 18278 \<and> (18278::int) \<le> 1000000
   \<and> getColumnLetter 18278 = js ''ZZZ'' \<and> getColumnIndex (getColumnLetter 18278) = 18278"
proof -
  have "getColumnLetter 18278 = js ''ZZZ''"
    by (simp add: getColumnLetter_def getColumnLetter_loop.simps fromCharCode_def js_def)
  with C6_column_round_trip [of 18278] show ?thesis by simp
qed



text \<open>
  C8 (as amended). \<open>parseGroqResponse\<close> tries its three sources in a fixed order: the
  block fenced with \<open>```json\<close>, then the block fenced with plain \<open>```\<close>, then the whole
  raw text. The interior of the first one that matches is the candidate when it is not
  empty (an empty interior gives way to the whole raw text). In particular, on
  \<open>```json\<close>, newline, \<open>{"a":1}\<close>, newline, \<open>```\<close> it returns the object with the member \<open>a\<close>
  of value 1.
\<close>

theorem C8_candidate_priority:
  \<open>(match_json response = Some m \<and> m \<noteq> [] \<longrightarrow> jsonString response = m)
   \<and> (match_json response = None \<and> match_plain response = Some m \<and> m \<noteq> [] \<longrightarrow>
        jsonString response = m)
   \<and> (match_json response = None \<and> match_plain response = None \<longrightarrow>
        jsonString response = response)
   \<and> (match_json response = Some [] \<or> (match_json response = None \<and> match_plain response = Some [])
        \<longrightarrow> jsonString response = response)
   \<and> parseGroqResponse (js ''```json\<newline>{"a":1}\<newline>```'')
       = Inr (JObject [(js ''a'', JNumber 1)])\<close>
proof -
  have \<open>jsonString (js ''```json\<newline>{"a":1}\<newline>```'') = js ''{"a":1}''\<close>
    by (rule jsonString_nonempty_match) (simp_all add: jsonMatch1_def fenced_match js_empty_iff)
  then have \<open>parseGroqResponse (js ''```json\<newline>{"a":1}\<newline>```'')
       = Inr (JObject [(js ''a'', JNumber 1)])\<close>
    by (simp add: parseGroqResponse_cases object_json)
  then show ?thesis
    by (auto simp: jsonString_def jsonMatch1_def)
qed

text \<open>
  The theorem at four texts: one with a plain fence before a \<open>```json\<close> fence (the
  \<open>```json\<close> block wins), one with a plain fence only, one without a fence, and one
  whose \<open>```json\<close> block has an empty interior.
\<close>

theorem C8_candidate_priority_witness:
  \<open>match_json (js ''``` 1 ``` ```json 2 ```'') = Some (js ''2'') \<and> js ''2'' \<noteq> []
   \<and> jsonString (js ''``` 1 ``` ```json 2 ```'') = js ''2''
   \<and> match_json (js ''```\<newline>[1]\<newline>```'') = None
   \<and> match_plain (js ''```\<newline>[1]\<newline>```'') = Some (js ''[1]'')
   \<and> js ''[1]'' \<noteq> []
   \<and> jsonString (js ''```\<newline>[1]\<newline>```'') = js ''[1]''
   \<and> match_json (js ''{"a":1}'') = None \<and> match_plain (js ''{"a":1}'') = None
   \<and> jsonString (js ''{"a":1}'') = js ''{"a":1}''
   \<and> match_json (js ''```json```'') = Some []
   \<and> jsonString (js ''```json```'') = js ''```json```''\<close>
  using C8_candidate_priority [of "js ''``` 1 ``` ```json 2 ```''" "js ''2''"]
    C8_candidate_priority [of "js ''```\<newline>[1]\<newline>```''" "js ''[1]''"]
    C8_candidate_priority [of "js ''{\"a\":1}''" "[]"]
    C8_candidate_priority [of "js ''```json```''" "[]"]
  by (simp add: two_fences_match plain_fence_match object_no_match empty_json_fence_match
        js_empty_iff)

text \<open>
  C8 as stated fails: on the text \<open>"```json```"\<close> (a JSON string) the first source matches
  with an empty interior, which is not JSON; the candidate is the whole raw text instead,
  and \<open>parseGroqResponse\<close> returns the string.
\<close>

theorem C8_counterexample:
  \<open>match_json (js ''"```json```"'') = Some []
   \<and> JSON_parse [] = Inl SyntaxError
   \<and> jsonString (js ''"```json```"'') = js ''"```json```"''
   \<and> parseGroqResponse (js ''"```json```"'') = Inr (JString (js ''```json```''))\<close>
proof -
  have \<open>jsonString (js ''"```json```"'') = js ''"```json```"''\<close>
    by (rule jsonString_empty_match) (simp add: jsonMatch1_def quoted_json_fence_match)
  then show ?thesis
    by (simp add: parseGroqResponse_cases quoted_json_fence_match quoted_json_fence_json
          empty_not_json)
qed

text \<open>
  C9 (as amended). When the interior of the matched fenced block is the empty string, the
  empty interior is not the candidate: by the fallback \<open>jsonMatch[1] || response\<close> the
  candidate is the entire raw text, and the result is what \<open>JSON.parse\<close> makes of the
  entire raw text. On the text that is only \<open>```json\<close> followed by \<open>```\<close> this parse fails
  and the \<open>Error\<close> is thrown. (The parse of the raw text does not fail for every such
  input.)
\<close>

theorem C9_empty_interior_falls_back:
  \<open>(match_json response = Some [] \<or> (match_json response = None \<and> match_plain response = Some [])
      \<longrightarrow> jsonString response = response
          \<and> parseGroqResponse response
              = (case JSON_parse response of Inr v \<Rightarrow> Inr v | Inl e \<Rightarrow> Inl invalid_response))
   \<and> match_json (js ''```json```'') = Some []
   \<and> jsonString (js ''```json```'') = js ''```json```''
   \<and> parseGroqResponse (js ''```json```'') = Inl invalid_response\<close>
proof -
  have fallback: "jsonString r = r"
    if "match_json r = Some [] \<or> (match_json r = None \<and> match_plain r = Some [])" for r
    using that by (auto simp: jsonString_def jsonMatch1_def)
  have \<open>jsonString (js ''```json```'') = js ''```json```''\<close>
    by (rule fallback) (simp add: empty_json_fence_match)
  then show ?thesis
    using fallback [of response]
    by (simp add: parseGroqResponse_cases empty_json_fence_match empty_json_fence_not_json)
qed

text \<open>
  The theorem at two texts. In \<open>```json\<close>, space, newline, \<open>```\<close> the interior of the
  \<open>```json\<close> block is white space only, and the group of the match is empty. In
  \<open>see ``` ```\<close> there is no \<open>```json\<close> block, and the plain block has an empty group. Both
  times the whole raw text is parsed, which fails.
\<close>

theorem C9_empty_interior_falls_back_witness:
  \<open>match_json (js ''```json \<newline>```'') = Some []
   \<and> jsonString (js ''```json \<newline>```'') = js ''```json \<newline>```''
   \<and> parseGroqResponse (js ''```json \<newline>```'') = Inl invalid_response
   \<and> match_json (js ''see ``` ```'') = None \<and> match_plain (js ''see ``` ```'') = Some []
   \<and> jsonString (js ''see ``` ```'') = js ''see ``` ```''
   \<and> parseGroqResponse (js ''see ``` ```'') = Inl invalid_response\<close>
proof -
  have m: \<open>match_json (js ''```json \<newline>```'') = Some []\<close>
    \<open>match_json (js ''see ``` ```'') = None\<close> \<open>match_plain (js ''see ``` ```'') = Some []\<close>
    by (simp_all add: regex_eval)
  have p: \<open>JSON_parse (js ''```json \<newline>```'') = Inl SyntaxError\<close>
    \<open>JSON_parse (js ''see ``` ```'') = Inl SyntaxError\<close>
    by (simp_all add: json_eval)
  from C9_empty_interior_falls_back [of "js ''```json \<newline>```''"]
    C9_empty_interior_falls_back [of "js ''see ``` ```''"] m p
  show ?thesis by simp
qed

text \<open>
  C9 as stated fails: the text \<open>"``````"\<close> (a JSON string of six backticks) matches the
  plain fence with an empty interior; the candidate is the entire raw text, which holds
  backticks, and its parse succeeds.
\<close>

theorem C9_counterexample:
  \<open>match_json (js ''"``````"'') = None \<and> match_plain (js ''"``````"'') = Some []
   \<and> jsonString (js ''"``````"'') = js ''"``````"''
   \<and> parseGroqResponse (js ''"``````"'') = Inr (JString (js ''``````''))\<close>
proof -
  have \<open>jsonString (js ''"``````"'') = js ''"``````"''\<close>
    by (rule jsonString_empty_match) (simp add: jsonMatch1_def quoted_fences_match)
  then show ?thesis
    by (simp add: parseGroqResponse_cases quoted_fences_match quoted_fences_json)
qed

text \<open>
  C10. For every sheet whose range reference \<open>!ref\<close> is absent, whatever cells it holds,
  \<open>convertSheetToText\<close> returns the empty string: it does not fail, and the text has no
  row and no newline.
\<close>

theorem C10_absent_ref_gives_empty_text:
  "convertSheetToText toStr \<lparr>ref = None, cells = cs\<rparr> = Inr []"
  by (simp add: convertSheetToText_def)


end
